theory Spec2Isabelle
  imports Complex_Main
begin

section \<open>JavaScript values, JSON bodies and the runtime pieces the handlers use\<close>

text \<open>
  The templates of this repository are Express handlers. Each handler builds an object
  literal and hands it to \<^verbatim>\<open>res.status(code).json(obj)\<close>. Values are modelled by
  \<open>jsval\<close>; \<open>res_json\<close> is what the client receives after JSON serialisation, which
  omits every property whose value is \<^verbatim>\<open>undefined\<close> and keeps \<^verbatim>\<open>null\<close>.
  \<^verbatim>\<open>process.uptime()\<close> is a number of seconds; it is only passed through to the body.
\<close>

datatype jsval = Undefined | Null | Str string | Num real | Obj "(string \<times> jsval) list"

primrec res_json :: "jsval \<Rightarrow> jsval" where
  "res_json Undefined = Undefined"
| "res_json Null = Null"
| "res_json (Str s) = Str s"
| "res_json (Num n) = Num n"
| "res_json (Obj kvs) =
     Obj (filter (\<lambda>kv. snd kv \<noteq> Undefined) (map (map_prod id res_json) kvs))"

text \<open>Property access \<^verbatim>\<open>obj.key\<close>: a missing property reads as \<^verbatim>\<open>undefined\<close>.\<close>

fun get_prop :: "jsval \<Rightarrow> string \<Rightarrow> jsval" where
  "get_prop (Obj kvs) k = (case map_of kvs k of None \<Rightarrow> Undefined | Some v \<Rightarrow> v)"
| "get_prop _ k = Undefined"

fun Object_keys :: "jsval \<Rightarrow> string list" where
  "Object_keys (Obj kvs) = map fst kvs"
| "Object_keys _ = []"

text \<open>
  What a handler catches: an \<^verbatim>\<open>Error\<close> object, with the two fields the handlers read.
\<close>

record js_error =
  message :: string
  stack :: string

text \<open>
  What awaiting an asynchronous computation gives: a value, a rejection (a throw), or
  nothing at all when the promise never settles.
\<close>

datatype 'a outcome = Resolves 'a | Rejects js_error | Pending

text \<open>The observable side effects of a handler: calls of check functions and console output.\<close>

datatype event =
    Invoked string
  | Console_error string jsval

record response =
  status_code :: nat
  body :: jsval

text \<open>
  The process: \<^verbatim>\<open>process.env\<close> as it is when the request is handled, and the value of
  \<^verbatim>\<open>process.uptime()\<close>.
\<close>

record process =
  env :: "string \<Rightarrow> string option"
  uptime :: real

text \<open>
  \<^verbatim>\<open>process.env.X || d\<close>: the default is taken when the variable is unset and also
  when it is the empty string, which is falsy.
\<close>

definition env_or :: "(string \<Rightarrow> string option) \<Rightarrow> string \<Rightarrow> string \<Rightarrow> string" where
  "env_or e k d = (case e k of None \<Rightarrow> d | Some v \<Rightarrow> if v = [] then d else v)"

subsection \<open>\<^verbatim>\<open>new Date().toISOString()\<close>\<close>

text \<open>
  A time value is a number of milliseconds since the epoch, between \<open>-8.64e15\<close> and
  \<open>8.64e15\<close>; \<^verbatim>\<open>new Date()\<close> is the current one. \<open>toISOString\<close> prints it in UTC as
  \<^verbatim>\<open>YYYY-MM-DDTHH:mm:ss.sssZ\<close>, with the year written as a sign and six digits
  outside \<open>0..9999\<close>. \<open>pad_digits k n\<close> prints the \<open>k\<close> low decimal digits of \<open>n\<close>.
\<close>

definition valid_time :: "int \<Rightarrow> bool" where
  "valid_time t \<longleftrightarrow> - 8640000000000000 \<le> t \<and> t \<le> 8640000000000000"

definition digit_char :: "int \<Rightarrow> char" where
  "digit_char d = ''0123456789'' ! nat d"

fun pad_digits :: "nat \<Rightarrow> int \<Rightarrow> string" where
  "pad_digits 0 n = []"
| "pad_digits (Suc k) n = pad_digits k (n div 10) @ [digit_char (n mod 10)]"

text \<open>Reading a string of decimal digits back as a number.\<close>

definition digit_value :: "char \<Rightarrow> int" where
  "digit_value c = int (of_char c) - 48"

definition decimal_value :: "string \<Rightarrow> int" where
  "decimal_value s = foldl (\<lambda>a c. 10 * a + digit_value c) 0 s"

text \<open>
  The civil date of a day number (days since the epoch), in the proleptic Gregorian
  calendar: year, month \<open>1..12\<close> and day of the month, computed per 400-year era
  from the day of the era \<open>doe\<close>, the year of the era \<open>yoe\<close> and the day of the year
  \<open>doy\<close> counted from the first of March.
\<close>

definition civil_from_days :: "int \<Rightarrow> int \<times> int \<times> int" where
  "civil_from_days days =
     (let z = days + 719468;
          era = z div 146097;
          doe = z - era * 146097;
          yoe = (doe - doe div 1460 + doe div 36524 - doe div 146096) div 365;
          y = yoe + era * 400;
          doy = doe - (365 * yoe + yoe div 4 - yoe div 100);
          mp = (5 * doy + 2) div 153;
          d = doy - (153 * mp + 2) div 5 + 1;
          m = (if mp < 10 then mp + 3 else mp - 9)
      in (if m \<le> 2 then y + 1 else y, m, d))"

definition year_string :: "int \<Rightarrow> string" where
  "year_string y =
     (if 0 \<le> y \<and> y \<le> 9999 then pad_digits 4 y
      else (if y < 0 then ''-'' else ''+'') @ pad_digits 6 \<bar>y\<bar>)"

definition toISOString :: "int \<Rightarrow> string" where
  "toISOString t =
     (let day = t div 86400000;
          tod = t mod 86400000;
          (y, m, d) = civil_from_days day
      in year_string y @ ''-'' @ pad_digits 2 m @ ''-'' @ pad_digits 2 d @ ''T'' @
         pad_digits 2 (tod div 3600000) @ '':'' @ pad_digits 2 (tod div 60000 mod 60) @ '':'' @
         pad_digits 2 (tod div 1000 mod 60) @ ''.'' @ pad_digits 3 (tod mod 1000) @ ''Z'')"

text \<open>
  The shape of such a string: in a pattern, \<open>d\<close> stands for a decimal digit and every
  other character for itself.
\<close>

definition is_digit :: "char \<Rightarrow> bool" where
  "is_digit c \<longleftrightarrow> c \<in> set ''0123456789''"

fun matches_pattern :: "string \<Rightarrow> string \<Rightarrow> bool" where
  "matches_pattern [] [] \<longleftrightarrow> True"
| "matches_pattern (p # ps) (c # cs) \<longleftrightarrow>
     (if p = CHR ''d'' then is_digit c else c = p) \<and> matches_pattern ps cs"
| "matches_pattern _ _ \<longleftrightarrow> False"

definition is_iso8601 :: "string \<Rightarrow> bool" where
  "is_iso8601 s \<longleftrightarrow>
     matches_pattern ''dddd-dd-ddTdd:dd:dd.dddZ'' s \<or>
     matches_pattern ''+dddddd-dd-ddTdd:dd:dd.dddZ'' s \<or>
     matches_pattern ''-dddddd-dd-ddTdd:dd:dd.dddZ'' s"

section \<open>examples/health-endpoints.js\<close>

text \<open>
  The \<^verbatim>\<open>checks\<close> object of a handler maps check names to status strings; it is an
  association list in the order of the object literal. \<^verbatim>\<open>Object.values\<close> lists the
  values, \<^verbatim>\<open>some\<close> and \<^verbatim>\<open>every\<close> are \<open>list_ex\<close> and \<open>list_all\<close>.
\<close>

type_synonym checks = "(string \<times> string) list"

definition Object_values :: "checks \<Rightarrow> string list" where
  "Object_values cs = map snd cs"

definition checks_obj :: "checks \<Rightarrow> jsval" where
  "checks_obj cs = Obj (map (\<lambda>(k, v). (k, Str v)) cs)"

subsection \<open>\<^verbatim>\<open>GET /health\<close>\<close>

definition hasErrors :: "checks \<Rightarrow> bool" where
  "hasErrors cs =
     list_ex (\<lambda>status. status = ''error'' \<or> status = ''failed'') (Object_values cs)"

definition hasWarnings :: "checks \<Rightarrow> bool" where
  "hasWarnings cs =
     list_ex (\<lambda>status. status = ''degraded'' \<or> status = ''warning'') (Object_values cs)"

definition overall_status :: "checks \<Rightarrow> string" where
  "overall_status cs =
     (if hasErrors cs then ''error'' else if hasWarnings cs then ''degraded'' else ''healthy'')"

text \<open>
  The \<^verbatim>\<open>checks\<close> literal of the template holds three placeholders
  (\<^verbatim>\<open>'ready', // Replace with actual database check\<close>). The handler is modelled for
  any outcome of evaluating that literal: the object, a throw (caught by the handler's
  \<^verbatim>\<open>catch\<close>), or an await that never settles, after which nothing is sent.
\<close>

definition template_checks :: checks where
  "template_checks =
     [(''database'', ''ready''), (''external_api'', ''ready''), (''dependencies'', ''ready'')]"

definition health_handler ::
  "process \<Rightarrow> int \<Rightarrow> checks outcome \<Rightarrow> event list \<times> response option" where
  "health_handler p now built =
     (case built of
        Resolves cs \<Rightarrow>
          (let status = overall_status cs in
           ([], Some \<lparr>status_code = (if status = ''error'' then 503 else 200),
                     body = res_json (Obj
                       [(''status'', Str status),
                        (''service'', Str ''Your Service Name''),
                        (''version'', Str (env_or (env p) ''npm_package_version'' ''1.0.0'')),
                        (''timestamp'', Str (toISOString now)),
                        (''environment'', Str (env_or (env p) ''NODE_ENV'' ''development'')),
                        (''uptime'', Num (uptime p)),
                        (''checks'', checks_obj cs),
                        (''notes'', if status = ''degraded''
                                    then Str ''Some services degraded'' else Null)])\<rparr>))
      | Rejects error \<Rightarrow>
          ([Console_error ''Health check failed:'' (Str (message error))],
           Some \<lparr>status_code = 503,
                 body = res_json (Obj
                   [(''status'', Str ''error''),
                    (''service'', Str ''Your Service Name''),
                    (''timestamp'', Str (toISOString now)),
                    (''error'', Str (message error))])\<rparr>)
      | Pending \<Rightarrow> ([], None))"

subsection \<open>The example check functions\<close>

text \<open>
  \<^verbatim>\<open>checkDatabase\<close> and \<^verbatim>\<open>checkDependencies\<close> wrap a probe left to the service
  (\<^verbatim>\<open>// await db.ping();\<close>) in \<^verbatim>\<open>try\<close>/\<^verbatim>\<open>catch\<close>. The probe is a parameter; the
  functions as written are the instance \<open>Resolves ()\<close>. Neither function bounds the
  time the probe may take.
\<close>

definition checkDatabase :: "unit outcome \<Rightarrow> event list \<times> string outcome" where
  "checkDatabase probe =
     (case probe of
        Resolves _ \<Rightarrow> ([], Resolves ''ready'')
      | Rejects error \<Rightarrow>
          ([Console_error ''Database check failed:'' (Str (message error))], Resolves ''error'')
      | Pending \<Rightarrow> ([], Pending))"

definition checkDependencies ::
  "(string \<Rightarrow> string option) \<Rightarrow> unit outcome \<Rightarrow> event list \<times> string outcome" where
  "checkDependencies e probe =
     (case probe of
        Resolves _ \<Rightarrow>
          ([], Resolves (if e ''API_KEY'' = None \<or> e ''API_KEY'' = Some []
                         then ''not_configured'' else ''ready''))
      | Rejects error \<Rightarrow>
          ([Console_error ''Dependency check failed:'' (Str (message error))], Resolves ''error'')
      | Pending \<Rightarrow> ([], Pending))"

subsection \<open>\<^verbatim>\<open>GET /health/readiness\<close>\<close>

definition isReady :: "checks \<Rightarrow> bool" where
  "isReady cs =
     list_all (\<lambda>status. status = ''ready'' \<or> status = ''not_configured'') (Object_values cs)"

definition readiness_catch :: "int \<Rightarrow> js_error \<Rightarrow> response" where
  "readiness_catch now error =
     \<lparr>status_code = 200,
      body = res_json (Obj
        [(''status'', Str ''not ready''),
         (''service'', Str ''Your Service Name''),
         (''timestamp'', Str (toISOString now)),
         (''error'', Str (message error))])\<rparr>"

definition readiness_reply :: "int \<Rightarrow> checks \<Rightarrow> response" where
  "readiness_reply now cs =
     \<lparr>status_code = 200,
      body = res_json (Obj
        [(''status'', Str (if isReady cs then ''ready'' else ''not ready'')),
         (''service'', Str ''Your Service Name''),
         (''timestamp'', Str (toISOString now)),
         (''checks'', checks_obj cs)])\<rparr>"

text \<open>
  The two checks are awaited one after the other, \<^verbatim>\<open>checkDatabase\<close> first; a check
  function is given by the events it emits and the outcome of awaiting it.
\<close>

definition readiness_handler ::
  "int \<Rightarrow> event list \<times> string outcome \<Rightarrow> event list \<times> string outcome
     \<Rightarrow> event list \<times> response option" where
  "readiness_handler now dbCheck depCheck =
     (case snd dbCheck of
        Pending \<Rightarrow> (Invoked ''checkDatabase'' # fst dbCheck, None)
      | Rejects error \<Rightarrow>
          (Invoked ''checkDatabase'' # fst dbCheck, Some (readiness_catch now error))
      | Resolves database \<Rightarrow>
          (case snd depCheck of
             Pending \<Rightarrow>
               (Invoked ''checkDatabase'' # fst dbCheck
                  @ Invoked ''checkDependencies'' # fst depCheck, None)
           | Rejects error \<Rightarrow>
               (Invoked ''checkDatabase'' # fst dbCheck
                  @ Invoked ''checkDependencies'' # fst depCheck,
                Some (readiness_catch now error))
           | Resolves dependencies \<Rightarrow>
               (Invoked ''checkDatabase'' # fst dbCheck
                  @ Invoked ''checkDependencies'' # fst depCheck,
                Some (readiness_reply now
                  [(''database'', database), (''dependencies'', dependencies)]))))"

text \<open>The readiness route with the example check functions of the file.\<close>

definition readiness ::
  "process \<Rightarrow> int \<Rightarrow> unit outcome \<Rightarrow> unit outcome \<Rightarrow> event list \<times> response option" where
  "readiness p now dbProbe depProbe =
     readiness_handler now (checkDatabase dbProbe) (checkDependencies (env p) depProbe)"

subsection \<open>\<^verbatim>\<open>GET /health/liveness\<close>\<close>

definition liveness_handler :: "process \<Rightarrow> int \<Rightarrow> event list \<times> response option" where
  "liveness_handler p now =
     ([], Some \<lparr>status_code = 200,
               body = res_json (Obj
                 [(''status'', Str ''alive''),
                  (''service'', Str ''Your Service Name''),
                  (''uptime'', Num (uptime p)),
                  (''timestamp'', Str (toISOString now))])\<rparr>)"

subsection \<open>The three routes of the file\<close>

text \<open>
  The file registers one handler per route. \<open>health_routes\<close> is the application seen
  from a request that reached one of them: the process, the clock, and the check
  computations that are in scope of all three handlers.
\<close>

datatype route = GET_health | GET_health_readiness | GET_health_liveness

definition health_routes ::
  "process \<Rightarrow> int \<Rightarrow> checks outcome \<Rightarrow> event list \<times> string outcome
     \<Rightarrow> event list \<times> string outcome \<Rightarrow> route \<Rightarrow> event list \<times> response option" where
  "health_routes p now built dbCheck depCheck r =
     (case r of
        GET_health \<Rightarrow> health_handler p now built
      | GET_health_readiness \<Rightarrow> readiness_handler now dbCheck depCheck
      | GET_health_liveness \<Rightarrow> liveness_handler p now)"

section \<open>examples/error-handlers.js\<close>

text \<open>
  The second file of \<^verbatim>\<open>src/unnamed/part_001\<close> (from its line 102 on): the 404 handler
  and the global error handler, which a service registers after its routes.

  The request fields the handlers read. Node gives header names in lower case, and
  \<^verbatim>\<open>req.get\<close> looks a header up by its lower-case name; a header that is absent reads
  as \<^verbatim>\<open>undefined\<close>.
\<close>

record request =
  "method" :: string
  originalUrl :: string
  headers :: "(string \<times> string) list"
  ip :: "string option"

definition str_or_undefined :: "string option \<Rightarrow> jsval" where
  "str_or_undefined v = (case v of None \<Rightarrow> Undefined | Some s \<Rightarrow> Str s)"

definition req_get :: "request \<Rightarrow> string \<Rightarrow> jsval" where
  "req_get req name = str_or_undefined (map_of (headers req) name)"

subsection \<open>The 404 handler\<close>

definition availableEndpoints :: jsval where
  "availableEndpoints = Obj
     [(''ui'', Obj [(''GET /'', Str ''Service information or demo UI'')]),
      (''health'', Obj
         [(''GET /health'', Str ''Comprehensive health check''),
          (''GET /health/readiness'', Str ''Service readiness probe''),
          (''GET /health/liveness'', Str ''Service liveness probe'')]),
      (''api'', Obj
         [(''POST /api/endpoint'', Str ''Description of your API endpoint''),
          (''GET /api/resource'', Str ''Description of your resource endpoint'')]),
      (''webhooks'', Obj
         [(''POST /webhook/type'', Str ''Description of your webhook endpoint'')])]"

definition not_found_handler :: "request \<Rightarrow> int \<Rightarrow> event list \<times> response option" where
  "not_found_handler req now =
     ([], Some \<lparr>status_code = 404,
               body = res_json (Obj
                 [(''error'', Str ''Endpoint not found''),
                  (''message'', Str (''The endpoint '' @ method req @ '' '' @ originalUrl req
                                      @ '' does not exist'')),
                  (''availableEndpoints'', availableEndpoints),
                  (''timestamp'', Str (toISOString now))])\<rparr>)"

subsection \<open>The global error handler\<close>

text \<open>
  The handler reads the clock twice, once for the log entry and once for the response.
\<close>

definition error_log_entry :: "js_error \<Rightarrow> request \<Rightarrow> int \<Rightarrow> jsval" where
  "error_log_entry err req logged =
     Obj [(''error'', Str (message err)),
          (''stack'', Str (stack err)),
          (''method'', Str (method req)),
          (''url'', Str (originalUrl req)),
          (''timestamp'', Str (toISOString logged)),
          (''userAgent'', req_get req ''user-agent''),
          (''ip'', str_or_undefined (ip req))]"

definition error_handler ::
  "process \<Rightarrow> js_error \<Rightarrow> request \<Rightarrow> int \<Rightarrow> int \<Rightarrow> event list \<times> response option" where
  "error_handler p err req logged now =
     ([Console_error ''Unhandled server error:'' (error_log_entry err req logged)],
      Some \<lparr>status_code = 500,
            body = res_json (Obj
              [(''error'', Str ''Internal Server Error''),
               (''message'', Str ''An unexpected error occurred''),
               (''timestamp'', Str (toISOString now)),
               (''requestId'', if env p ''NODE_ENV'' = Some ''production''
                               then str_or_undefined (map_of (headers req) ''x-request-id'')
                               else Undefined)])\<rparr>)"

section \<open>examples/server-setup.js\<close>




section \<open>Comparing response bodies\<close>

text \<open>A body with its \<^verbatim>\<open>timestamp\<close> property left out.\<close>

fun without_timestamp :: "jsval \<Rightarrow> jsval" where
  "without_timestamp (Obj kvs) = Obj (filter (\<lambda>kv. fst kv \<noteq> ''timestamp'') kvs)"
| "without_timestamp v = v"

section \<open>Theorems\<close>

subsection \<open>The overall status\<close>

lemma hasErrors_iff:
  "hasErrors cs \<longleftrightarrow> ''error'' \<in> set (Object_values cs) \<or> ''failed'' \<in> set (Object_values cs)"
  by (auto simp: hasErrors_def list_ex_iff)

lemma hasWarnings_iff:
  "hasWarnings cs \<longleftrightarrow>
     ''degraded'' \<in> set (Object_values cs) \<or> ''warning'' \<in> set (Object_values cs)"
  by (auto simp: hasWarnings_def list_ex_iff)

lemma list_all_excludes: "list_all P xs \<Longrightarrow> \<not> P s \<Longrightarrow> s \<notin> set xs"
  by (auto simp: list_all_iff)

text \<open>
  The reduction as the handler computes it, for arbitrary strings: line 15 tests for
  \<open>error\<close> and also for \<open>failed\<close>, line 18 for \<open>degraded\<close> and \<open>warning\<close>.
\<close>

lemma overall_status_cases:
  "overall_status cs =
     (if ''error'' \<in> set (Object_values cs) \<or> ''failed'' \<in> set (Object_values cs)
      then ''error''
      else if ''degraded'' \<in> set (Object_values cs) \<or> ''warning'' \<in> set (Object_values cs)
      then ''degraded''
      else ''healthy'')"
  by (simp only: overall_status_def hasErrors_iff hasWarnings_iff)

lemma overall_status_all_ready:
  assumes all: "list_all (\<lambda>v. v = ''ready'' \<or> v = ''not_configured'') (Object_values cs)"
  shows "overall_status cs = ''healthy''"
proof -
  have "''error'' \<notin> set (Object_values cs)"
    by (rule list_all_excludes [OF all]) simp
  moreover have "''failed'' \<notin> set (Object_values cs)"
    by (rule list_all_excludes [OF all]) simp
  moreover have "''degraded'' \<notin> set (Object_values cs)"
    by (rule list_all_excludes [OF all]) simp
  moreover have "''warning'' \<notin> set (Object_values cs)"
    by (rule list_all_excludes [OF all]) simp
  ultimately show ?thesis
    by (simp only: overall_status_cases simp_thms if_False)
qed

text \<open>
  C1: for every mapping of check names to check results, that is, to values of the
  enumeration \<open>ready\<close>, \<open>not_ready\<close>, \<open>error\<close>, \<open>not_configured\<close>, \<open>degraded\<close>,
  \<open>warning\<close>: if any value is \<open>error\<close> the overall status is \<open>error\<close>; otherwise if any
  value is \<open>degraded\<close> or \<open>warning\<close> it is \<open>degraded\<close>; otherwise it is \<open>healthy\<close>, in
  particular when every value is \<open>ready\<close> or \<open>not_configured\<close>.
\<close>

theorem overall_status_on_CheckResult:
  assumes "set (Object_values cs) \<subseteq>
    {''ready'', ''not_ready'', ''error'', ''not_configured'', ''degraded'', ''warning''}"
  shows "overall_status cs =
     (if ''error'' \<in> set (Object_values cs) then ''error''
      else if ''degraded'' \<in> set (Object_values cs) \<or> ''warning'' \<in> set (Object_values cs)
      then ''degraded''
      else ''healthy'') \<and>
   (list_all (\<lambda>v. v = ''ready'' \<or> v = ''not_configured'') (Object_values cs)
      \<longrightarrow> overall_status cs = ''healthy'')"
proof -
  from assms have "''failed'' \<notin> set (Object_values cs)" by auto
  then have "overall_status cs =
     (if ''error'' \<in> set (Object_values cs) then ''error''
      else if ''degraded'' \<in> set (Object_values cs) \<or> ''warning'' \<in> set (Object_values cs)
      then ''degraded''
      else ''healthy'')"
    by (simp only: overall_status_cases simp_thms)
  with overall_status_all_ready [of cs] show ?thesis by blast
qed

theorem overall_status_on_CheckResult_witness:
  "set (Object_values [(''database'', ''ready''), (''external_api'', ''warning''),
                       (''dependencies'', ''not_configured'')]) \<subseteq>
     {''ready'', ''not_ready'', ''error'', ''not_configured'', ''degraded'', ''warning''} \<and>
   overall_status [(''database'', ''ready''), (''external_api'', ''warning''),
                   (''dependencies'', ''not_configured'')] = ''degraded'' \<and>
   overall_status [(''database'', ''error''), (''external_api'', ''degraded'')] = ''error'' \<and>
   overall_status [(''database'', ''ready''), (''dependencies'', ''not_configured'')] = ''healthy''"
proof -
  let ?a = "[(''database'', ''ready''), (''external_api'', ''warning''),
             (''dependencies'', ''not_configured'')]"
  let ?b = "[(''database'', ''error''), (''external_api'', ''degraded'')]"
  let ?c = "[(''database'', ''ready''), (''dependencies'', ''not_configured'')]"
  have a: "set (Object_values ?a) \<subseteq>
      {''ready'', ''not_ready'', ''error'', ''not_configured'', ''degraded'', ''warning''}"
    by (simp add: Object_values_def)
  have b: "set (Object_values ?b) \<subseteq>
      {''ready'', ''not_ready'', ''error'', ''not_configured'', ''degraded'', ''warning''}"
    by (simp add: Object_values_def)
  have c: "set (Object_values ?c) \<subseteq>
      {''ready'', ''not_ready'', ''error'', ''not_configured'', ''degraded'', ''warning''}"
    by (simp add: Object_values_def)
  have "overall_status ?a = ''degraded''"
    using overall_status_on_CheckResult [OF a, THEN conjunct1] by (simp add: Object_values_def)
  moreover have "overall_status ?b = ''error''"
    using overall_status_on_CheckResult [OF b, THEN conjunct1] by (simp add: Object_values_def)
  moreover have "overall_status ?c = ''healthy''"
    using overall_status_on_CheckResult [OF c, THEN conjunct1] by (simp add: Object_values_def)
  ultimately show ?thesis using a by simp
qed

subsection \<open>Timestamps\<close>

lemma toISOString_epoch: "toISOString 0 = ''1970-01-01T00:00:00.000Z''"
  by code_simp

lemma toISOString_sample: "toISOString 1764000000123 = ''2025-11-24T16:00:00.123Z''"
  by code_simp

lemma toISOString_leap_day: "toISOString 1709251199999 = ''2024-02-29T23:59:59.999Z''"
  by code_simp

lemma toISOString_before_epoch: "toISOString (- 1) = ''1969-12-31T23:59:59.999Z''"
  by code_simp

text \<open>Every string \<open>toISOString\<close> prints has the ISO-8601 shape.\<close>

lemma is_digit_digit_char: "0 \<le> d \<Longrightarrow> d < 10 \<Longrightarrow> is_digit (digit_char d)"
proof -
  assume "0 \<le> d" "d < 10"
  then have "nat d < length ''0123456789''" by simp
  then have "''0123456789'' ! nat d \<in> set ''0123456789''" by (rule nth_mem)
  then show ?thesis by (simp only: is_digit_def digit_char_def)
qed

lemma matches_pattern_append:
  "matches_pattern p1 s1 \<Longrightarrow> matches_pattern p2 s2 \<Longrightarrow> matches_pattern (p1 @ p2) (s1 @ s2)"
  by (induction p1 s1 rule: matches_pattern.induct) simp_all

lemma matches_pattern_literal:
  "matches_pattern ''-'' ''-''" "matches_pattern ''+'' ''+''" "matches_pattern ''T'' ''T''"
  "matches_pattern '':'' '':''" "matches_pattern ''.'' ''.''" "matches_pattern ''Z'' ''Z''"
  by simp_all

lemma matches_pattern_digit: "is_digit c \<Longrightarrow> matches_pattern ''d'' [c]"
  by simp

lemma pad_digits_matches: "matches_pattern (replicate k (CHR ''d'')) (pad_digits k n)"
proof (induction k arbitrary: n)
  case 0
  show ?case by simp
next
  case (Suc k)
  have "is_digit (digit_char (n mod 10))"
    by (rule is_digit_digit_char) simp_all
  then have "matches_pattern (replicate k (CHR ''d'') @ ''d'') (pad_digits k (n div 10) @ [digit_char (n mod 10)])"
    by (intro matches_pattern_append Suc.IH matches_pattern_digit)
  then show ?case
    by (simp add: replicate_append_same)
qed

lemma pad2: "matches_pattern ''dd'' (pad_digits 2 n)"
  using pad_digits_matches [of 2 n] by (simp add: numeral_2_eq_2)

lemma pad3: "matches_pattern ''ddd'' (pad_digits 3 n)"
  using pad_digits_matches [of 3 n] by (simp add: numeral_3_eq_3)

lemma pad4: "matches_pattern ''dddd'' (pad_digits 4 n)"
  using pad_digits_matches [of 4 n] by (simp add: eval_nat_numeral)

lemma pad6: "matches_pattern ''dddddd'' (pad_digits 6 n)"
  using pad_digits_matches [of 6 n] by (simp add: eval_nat_numeral)

lemma date_time_tail:
  "matches_pattern ''-dd-ddTdd:dd:dd.dddZ''
     (''-'' @ pad_digits 2 m @ ''-'' @ pad_digits 2 d @ ''T'' @ pad_digits 2 h @ '':'' @
      pad_digits 2 mi @ '':'' @ pad_digits 2 s @ ''.'' @ pad_digits 3 ms @ ''Z'')"
proof -
  have "matches_pattern (''-'' @ ''dd'' @ ''-'' @ ''dd'' @ ''T'' @ ''dd'' @ '':'' @ ''dd'' @ '':'' @ ''dd'' @ ''.'' @ ''ddd'' @ ''Z'')
     (''-'' @ pad_digits 2 m @ ''-'' @ pad_digits 2 d @ ''T'' @ pad_digits 2 h @ '':'' @
      pad_digits 2 mi @ '':'' @ pad_digits 2 s @ ''.'' @ pad_digits 3 ms @ ''Z'')"
    by (intro matches_pattern_append matches_pattern_literal pad2 pad3)
  then show ?thesis by simp
qed

lemma year_string_cases:
  "matches_pattern ''dddd'' (year_string y) \<or>
   matches_pattern ''+dddddd'' (year_string y) \<or>
   matches_pattern ''-dddddd'' (year_string y)"
proof -
  have plus: "matches_pattern (''+'' @ ''dddddd'') (''+'' @ pad_digits 6 \<bar>y\<bar>)"
    by (intro matches_pattern_append matches_pattern_literal pad6)
  have minus: "matches_pattern (''-'' @ ''dddddd'') (''-'' @ pad_digits 6 \<bar>y\<bar>)"
    by (intro matches_pattern_append matches_pattern_literal pad6)
  show ?thesis
  proof (cases "0 \<le> y \<and> y \<le> 9999")
    case True
    then have "year_string y = pad_digits 4 y" by (simp add: year_string_def)
    with pad4 [of y] show ?thesis by simp
  next
    case False
    show ?thesis
    proof (cases "y < 0")
      case True
      with False have "year_string y = ''-'' @ pad_digits 6 \<bar>y\<bar>"
        by (simp add: year_string_def)
      with minus show ?thesis by simp
    next
      case pos: False
      with False have "year_string y = ''+'' @ pad_digits 6 \<bar>y\<bar>"
        by (simp add: year_string_def)
      with plus show ?thesis by simp
    qed
  qed
qed

lemma toISOString_is_iso8601: "is_iso8601 (toISOString t)"
proof -
  obtain y m d where c: "civil_from_days (t div 86400000) = (y, m, d)"
    by (cases "civil_from_days (t div 86400000)") auto
  define tail where "tail = ''-'' @ pad_digits 2 m @ ''-'' @ pad_digits 2 d @ ''T'' @
         pad_digits 2 (t mod 86400000 div 3600000) @ '':'' @
         pad_digits 2 (t mod 86400000 div 60000 mod 60) @ '':'' @
         pad_digits 2 (t mod 86400000 div 1000 mod 60) @ ''.'' @
         pad_digits 3 (t mod 86400000 mod 1000) @ ''Z''"
  have t: "toISOString t = year_string y @ tail"
    by (simp add: toISOString_def Let_def c tail_def)
  have tl: "matches_pattern ''-dd-ddTdd:dd:dd.dddZ'' tail"
    unfolding tail_def by (rule date_time_tail)
  from year_string_cases [of y] show ?thesis
  proof (elim disjE)
    assume "matches_pattern ''dddd'' (year_string y)"
    from matches_pattern_append [OF this tl] show ?thesis
      by (simp add: is_iso8601_def t)
  next
    assume "matches_pattern ''+dddddd'' (year_string y)"
    from matches_pattern_append [OF this tl] show ?thesis
      by (simp add: is_iso8601_def t)
  next
    assume "matches_pattern ''-dddddd'' (year_string y)"
    from matches_pattern_append [OF this tl] show ?thesis
      by (simp add: is_iso8601_def t)
  qed
qed

text \<open>
  The fields of the string are the calendar fields of the time value: month, day, hour,
  minute, second and millisecond are in their ranges, the year of a time value has at
  most six digits, and every field reads back as the number it prints, so \<open>pad_digits\<close>
  cuts no digit. The year of the era is found by bracketing the day of the era between
  two starts of a year; the two tables are checked by evaluation.
\<close>

lemma year_of_era_mono:
  fixes a b :: int
  assumes "0 \<le> a" "a \<le> b"
  shows "a - a div 1460 + a div 36524 - a div 146096 \<le> b - b div 1460 + b div 36524 - b div 146096"
proof -
  have 1: "b div 1460 - a div 1460 \<le> b - a" using assms by linarith
  have 2: "a div 146096 = a div 36524 div 4" "b div 146096 = b div 36524 div 4"
    using assms by linarith+
  have 3: "a div 36524 \<le> b div 36524" using assms by linarith
  have 4: "b div 36524 div 4 - a div 36524 div 4 \<le> b div 36524 - a div 36524"
    using 3 by linarith
  from 1 2 4 show ?thesis by linarith
qed

lemma year_starts:
  "list_all (\<lambda>k::int.
      let a = 365 * k + k div 4 - k div 100;
          b = 365 * (k + 1) + (k + 1) div 4 - (k + 1) div 100 + (k + 1) div 400 - 1
      in (a - a div 1460 + a div 36524 - a div 146096) div 365 = k \<and>
         (b - b div 1460 + b div 36524 - b div 146096) div 365 = k) [0..399]"
  by code_simp

lemma int_bracket:
  fixes g :: "int \<Rightarrow> int"
  assumes "lo < hi" "g lo \<le> x" "x < g hi"
  shows "\<exists>k. lo \<le> k \<and> k < hi \<and> g k \<le> x \<and> x < g (k + 1)"
  using assms(1,3)
proof (induction hi rule: int_gr_induct)
  case base
  with assms(2) show ?case by (intro exI [of _ lo]) simp
next
  case (step i)
  show ?case
  proof (cases "x < g i")
    case True
    with step.IH obtain k where "lo \<le> k" "k < i" "g k \<le> x" "x < g (k + 1)" by blast
    then show ?thesis by (intro exI [of _ k]) simp
  next
    case False
    with step show ?thesis by (intro exI [of _ i]) simp
  qed
qed

lemma month_day_table:
  "list_all (\<lambda>doy::int.
      let mp = (5 * doy + 2) div 153; d = doy - (153 * mp + 2) div 5 + 1
      in 0 \<le> mp \<and> mp \<le> 11 \<and> 1 \<le> d \<and> d \<le> 31) [0..365]"
  by code_simp


lemma year_of_era:
  fixes doe :: int
  assumes "0 \<le> doe" "doe \<le> 146096"
  defines "yoe \<equiv> (doe - doe div 1460 + doe div 36524 - doe div 146096) div 365"
  shows "0 \<le> yoe \<and> yoe \<le> 399 \<and>
         0 \<le> doe - (365 * yoe + yoe div 4 - yoe div 100) \<and>
         doe - (365 * yoe + yoe div 4 - yoe div 100) \<le> 365"
proof -
  define D where "D = (\<lambda>k::int. 365 * k + k div 4 - k div 100 + k div 400)"
  define f where "f = (\<lambda>x::int. x - x div 1460 + x div 36524 - x div 146096)"
  have mono: "f a \<le> f b" if "0 \<le> a" "a \<le> b" for a b
    unfolding f_def using that by (rule year_of_era_mono)
  have yoe: "yoe = f doe div 365"
    unfolding yoe_def f_def by (rule refl)
  have "D 0 \<le> doe" "doe < D 400"
    using assms(1,2) by (simp_all add: D_def)
  with int_bracket [of 0 400 D doe]
  obtain k where k: "0 \<le> k" "k < 400" "D k \<le> doe" "doe < D (k + 1)" by auto
  then have "k \<in> set [0..399]" by simp
  with year_starts
  have tab: "f (365 * k + k div 4 - k div 100) div 365 = k \<and> f (D (k + 1) - 1) div 365 = k"
    unfolding list_all_iff Let_def f_def D_def by blast
  have k400: "k div 400 = 0" using k(1,2) by linarith
  define a where "a = 365 * k + k div 4 - k div 100"
  have Dk: "D k = a" unfolding D_def a_def using k400 by linarith
  define b where "b = D (k + 1) - 1"
  from tab have lo: "f a div 365 = k" and hi: "f b div 365 = k"
    unfolding a_def b_def by blast+
  have a0: "0 \<le> a" unfolding a_def using k(1) by linarith
  have ad: "a \<le> doe" using k(3) Dk by simp
  have db: "doe \<le> b" using k(4) b_def by simp
  have "f a div 365 \<le> f doe div 365"
    using mono [OF a0 ad] by (rule zdiv_mono1) simp
  with lo yoe have ge: "k \<le> yoe" by simp
  have "f doe div 365 \<le> f b div 365"
    using mono [OF assms(1) db] by (rule zdiv_mono1) simp
  with hi yoe have le: "yoe \<le> k" by simp
  from ge le have eq: "yoe = k" by simp
  have len: "b - a \<le> 365"
  proof -
    have lin: "365 * (k + 1) + p - u + w - 1 - (365 * k + q - v) \<le> 365"
      if "p - q \<le> 1" "w \<le> u - v" for p q u v w :: int
      using that by (simp add: algebra_simps)
    have d4: "(k + 1) div 4 - k div 4 \<le> 1" by linarith
    have d400: "(k + 1) div 400 \<le> (k + 1) div 100 - k div 100"
    proof (cases "k = 399")
      case True
      then show ?thesis by simp
    next
      case False
      with k(1,2) have "(k + 1) div 400 = 0" by linarith
      moreover have "k div 100 \<le> (k + 1) div 100" by linarith
      ultimately show ?thesis by linarith
    qed
    show ?thesis
      unfolding b_def a_def D_def using d4 d400 by (rule lin)
  qed
  have "365 * yoe + yoe div 4 - yoe div 100 = a"
    unfolding eq a_def by (rule refl)
  with ad db len k(1,2) eq show ?thesis by linarith
qed

lemma month_day_range:
  fixes doy :: int
  assumes "0 \<le> doy" "doy \<le> 365"
  defines "mp \<equiv> (5 * doy + 2) div 153"
  shows "0 \<le> mp \<and> mp \<le> 11 \<and> 1 \<le> doy - (153 * mp + 2) div 5 + 1 \<and>
         doy - (153 * mp + 2) div 5 + 1 \<le> 31"
proof -
  from assms(1,2) have "doy \<in> set [0..365]" by simp
  with month_day_table show ?thesis
    unfolding list_all_iff mp_def by (auto simp: Let_def)
qed

lemma civil_from_days_range:
  assumes "civil_from_days days = (y, m, d)"
  shows "1 \<le> m \<and> m \<le> 12 \<and> 1 \<le> d \<and> d \<le> 31 \<and>
         400 * ((days + 719468) div 146097) \<le> y \<and> y \<le> 400 * ((days + 719468) div 146097) + 400"
proof -
  define z where "z = days + 719468"
  define doe where "doe = z - z div 146097 * 146097"
  define yoe where "yoe = (doe - doe div 1460 + doe div 36524 - doe div 146096) div 365"
  define doy where "doy = doe - (365 * yoe + yoe div 4 - yoe div 100)"
  define mp where "mp = (5 * doy + 2) div 153"
  have doe: "0 \<le> doe" "doe \<le> 146096" unfolding doe_def by linarith+
  from year_of_era [OF doe] have yoe: "0 \<le> yoe" "yoe \<le> 399" and doy: "0 \<le> doy" "doy \<le> 365"
    unfolding yoe_def doy_def by simp_all
  from month_day_range [OF doy] have mp: "0 \<le> mp" "mp \<le> 11"
    and dd: "1 \<le> doy - (153 * mp + 2) div 5 + 1" "doy - (153 * mp + 2) div 5 + 1 \<le> 31"
    unfolding mp_def by simp_all
  have m: "m = (if mp < 10 then mp + 3 else mp - 9)"
    and d: "d = doy - (153 * mp + 2) div 5 + 1"
    and y: "y = (if m \<le> 2 then yoe + z div 146097 * 400 + 1 else yoe + z div 146097 * 400)"
  proof -
    have "civil_from_days days =
      (if (if mp < 10 then mp + 3 else mp - 9) \<le> 2
       then yoe + z div 146097 * 400 + 1 else yoe + z div 146097 * 400,
       if mp < 10 then mp + 3 else mp - 9, doy - (153 * mp + 2) div 5 + 1)"
      unfolding civil_from_days_def Let_def z_def doe_def yoe_def doy_def mp_def
      by (rule refl)
    with assms show "m = (if mp < 10 then mp + 3 else mp - 9)"
      and "d = doy - (153 * mp + 2) div 5 + 1"
      and "y = (if m \<le> 2 then yoe + z div 146097 * 400 + 1 else yoe + z div 146097 * 400)"
      by auto
  qed
  from m mp have "1 \<le> m" "m \<le> 12" by (simp_all split: if_splits)
  moreover from d dd have "1 \<le> d" "d \<le> 31" by simp_all
  moreover from y yoe have "400 * (z div 146097) \<le> y" "y \<le> 400 * (z div 146097) + 400"
    by (simp_all split: if_splits)
  ultimately show ?thesis unfolding z_def by simp
qed

lemma digit_value_digit_char:
  assumes "0 \<le> d" "d < 10"
  shows "digit_value (digit_char d) = d"
proof -
  from assms have "d \<in> set [0..9]" by simp
  then have "d \<in> {0, 1, 2, 3, 4, 5, 6, 7, 8, 9}" by (simp add: upto.simps)
  then show ?thesis
    by (auto simp: digit_value_def digit_char_def)
qed

lemma decimal_value_snoc: "decimal_value (s @ [c]) = 10 * decimal_value s + digit_value c"
  by (simp add: decimal_value_def)

lemma pad_digits_value: "0 \<le> n \<Longrightarrow> n < 10 ^ k \<Longrightarrow> decimal_value (pad_digits k n) = n"
proof (induction k arbitrary: n)
  case 0
  then show ?case by (simp add: decimal_value_def)
next
  case (Suc k)
  from Suc.prems have "0 \<le> n div 10" "n div 10 < 10 ^ k" by simp_all
  then have "decimal_value (pad_digits k (n div 10)) = n div 10" by (rule Suc.IH)
  moreover have "digit_value (digit_char (n mod 10)) = n mod 10"
    by (rule digit_value_digit_char) simp_all
  ultimately show ?case
    by (simp add: decimal_value_snoc)
qed

lemma time_of_day_range:
  fixes t :: int
  defines "tod \<equiv> t mod 86400000"
  shows "0 \<le> tod div 3600000 \<and> tod div 3600000 < 24 \<and>
         0 \<le> tod div 60000 mod 60 \<and> tod div 60000 mod 60 < 60 \<and>
         0 \<le> tod div 1000 mod 60 \<and> tod div 1000 mod 60 < 60 \<and>
         0 \<le> tod mod 1000 \<and> tod mod 1000 < 1000"
proof -
  have "0 \<le> tod" "tod < 86400000" unfolding tod_def by simp_all
  then have "0 \<le> tod div 3600000" "tod div 3600000 < 24" by linarith+
  then show ?thesis by simp
qed

lemma year_range:
  assumes "valid_time t" "civil_from_days (t div 86400000) = (y, m, d)"
  shows "- 272000 \<le> y \<and> y \<le> 276000"
proof -
  from assms(1) have "- 100000000 \<le> t div 86400000" "t div 86400000 \<le> 100000000"
    unfolding valid_time_def by linarith+
  then have "- 680 \<le> (t div 86400000 + 719468) div 146097"
    "(t div 86400000 + 719468) div 146097 \<le> 689"
    by linarith+
  with civil_from_days_range [OF assms(2)] show ?thesis by linarith
qed


lemma toISOString_fields:
  assumes "valid_time t" and "civil_from_days (t div 86400000) = (y, m, d)"
  defines "tod \<equiv> t mod 86400000"
  shows "toISOString t =
           year_string y @ ''-'' @ pad_digits 2 m @ ''-'' @ pad_digits 2 d @ ''T'' @
           pad_digits 2 (tod div 3600000) @ '':'' @ pad_digits 2 (tod div 60000 mod 60) @ '':'' @
           pad_digits 2 (tod div 1000 mod 60) @ ''.'' @ pad_digits 3 (tod mod 1000) @ ''Z'' \<and>
         (0 \<le> y \<and> y \<le> 9999 \<longrightarrow>
            year_string y = pad_digits 4 y \<and> decimal_value (pad_digits 4 y) = y) \<and>
         (\<not> (0 \<le> y \<and> y \<le> 9999) \<longrightarrow>
            year_string y = (if y < 0 then ''-'' else ''+'') @ pad_digits 6 \<bar>y\<bar> \<and>
            decimal_value (pad_digits 6 \<bar>y\<bar>) = \<bar>y\<bar>) \<and>
         decimal_value (pad_digits 2 m) = m \<and> 1 \<le> m \<and> m \<le> 12 \<and>
         decimal_value (pad_digits 2 d) = d \<and> 1 \<le> d \<and> d \<le> 31 \<and>
         decimal_value (pad_digits 2 (tod div 3600000)) = tod div 3600000 \<and> tod div 3600000 < 24 \<and>
         decimal_value (pad_digits 2 (tod div 60000 mod 60)) = tod div 60000 mod 60 \<and>
         decimal_value (pad_digits 2 (tod div 1000 mod 60)) = tod div 1000 mod 60 \<and>
         decimal_value (pad_digits 3 (tod mod 1000)) = tod mod 1000"
proof -
  have str: "toISOString t =
           year_string y @ ''-'' @ pad_digits 2 m @ ''-'' @ pad_digits 2 d @ ''T'' @
           pad_digits 2 (tod div 3600000) @ '':'' @ pad_digits 2 (tod div 60000 mod 60) @ '':'' @
           pad_digits 2 (tod div 1000 mod 60) @ ''.'' @ pad_digits 3 (tod mod 1000) @ ''Z''"
    by (simp add: toISOString_def Let_def assms(2) tod_def)
  from civil_from_days_range [OF assms(2)]
  have md: "1 \<le> m" "m \<le> 12" "1 \<le> d" "d \<le> 31" by simp_all
  from year_range [OF assms(1,2)] have yr: "- 272000 \<le> y" "y \<le> 276000" by simp_all
  from time_of_day_range [of t]
  have tr: "0 \<le> tod div 3600000" "tod div 3600000 < 24"
    "0 \<le> tod div 60000 mod 60" "tod div 60000 mod 60 < 60"
    "0 \<le> tod div 1000 mod 60" "tod div 1000 mod 60 < 60"
    "0 \<le> tod mod 1000" "tod mod 1000 < 1000"
    unfolding tod_def by simp_all
  have y4: "decimal_value (pad_digits 4 y) = y" if "0 \<le> y \<and> y \<le> 9999"
    using that by (intro pad_digits_value) simp_all
  have y6: "decimal_value (pad_digits 6 \<bar>y\<bar>) = \<bar>y\<bar>"
    using yr by (intro pad_digits_value) simp_all
  have m2: "decimal_value (pad_digits 2 m) = m"
    using md by (intro pad_digits_value) simp_all
  have d2: "decimal_value (pad_digits 2 d) = d"
    using md by (intro pad_digits_value) simp_all
  have h2: "decimal_value (pad_digits 2 (tod div 3600000)) = tod div 3600000"
    using tr(1,2) by (intro pad_digits_value) simp_all
  have mi2: "decimal_value (pad_digits 2 (tod div 60000 mod 60)) = tod div 60000 mod 60"
    using tr(3,4) by (intro pad_digits_value) simp_all
  have s2: "decimal_value (pad_digits 2 (tod div 1000 mod 60)) = tod div 1000 mod 60"
    using tr(5,6) by (intro pad_digits_value) simp_all
  have ms3: "decimal_value (pad_digits 3 (tod mod 1000)) = tod mod 1000"
    using tr(7,8) by (intro pad_digits_value) simp_all
  have ys: "year_string y = pad_digits 4 y" if "0 \<le> y \<and> y \<le> 9999"
    using that by (simp add: year_string_def)
  have yl: "year_string y = (if y < 0 then ''-'' else ''+'') @ pad_digits 6 \<bar>y\<bar>"
    if "\<not> (0 \<le> y \<and> y \<le> 9999)"
    unfolding year_string_def using that by (simp only: if_False)
  from str ys y4 yl y6 m2 d2 h2 mi2 s2 ms3 md tr(2) show ?thesis
    by blast
qed

subsection \<open>Serialisation of the bodies\<close>

lemma checks_obj_defined [simp]: "checks_obj cs \<noteq> Undefined"
  by (simp add: checks_obj_def)

lemma res_json_checks_obj [simp]: "res_json (checks_obj cs) = checks_obj cs"
  by (induction cs) (auto simp: checks_obj_def)

lemma res_json_str_or_undefined [simp]: "res_json (str_or_undefined v) = str_or_undefined v"
  by (cases v) (simp_all add: str_or_undefined_def)

lemma res_json_availableEndpoints: "res_json availableEndpoints = availableEndpoints"
  by (simp add: availableEndpoints_def)

lemma readiness_reply_fields:
  "status_code (readiness_reply now cs) = 200"
  "get_prop (body (readiness_reply now cs)) ''status'' =
     Str (if isReady cs then ''ready'' else ''not ready'')"
  "get_prop (body (readiness_reply now cs)) ''checks'' = checks_obj cs"
  "get_prop (body (readiness_reply now cs)) ''error'' = Undefined"
  by (simp_all add: readiness_reply_def)

lemma readiness_catch_fields:
  "status_code (readiness_catch now e) = 200"
  "get_prop (body (readiness_catch now e)) ''status'' = Str ''not ready''"
  "get_prop (body (readiness_catch now e)) ''error'' = Str (message e)"
  "get_prop (body (readiness_catch now e)) ''checks'' = Undefined"
  by (simp_all add: readiness_catch_def)

lemma readiness_handler_sent:
  assumes "snd (readiness_handler now dbCheck depCheck) = Some r"
  shows "(\<exists>e. r = readiness_catch now e) \<or> (\<exists>cs. r = readiness_reply now cs)"
  using assms
  by (auto simp: readiness_handler_def split: outcome.splits)

text \<open>The example check functions catch every throw of their probe.\<close>

lemma checkDatabase_never_throws: "snd (checkDatabase probe) \<noteq> Rejects e"
  by (cases probe) (simp_all add: checkDatabase_def)

lemma checkDependencies_never_throws: "snd (checkDependencies en probe) \<noteq> Rejects e"
  by (cases probe) (simp_all add: checkDependencies_def)

subsection \<open>The comprehensive health route\<close>

lemma health_status_of_response:
  assumes "snd (health_handler p now built) = Some r"
  shows "(status_code r = 503 \<longleftrightarrow> get_prop (body r) ''status'' = Str ''error'') \<and>
         (status_code r = 200 \<longleftrightarrow> get_prop (body r) ''status'' \<noteq> Str ''error'') \<and>
         (\<forall>cs. built = Resolves cs \<longrightarrow> get_prop (body r) ''status'' = Str (overall_status cs))"
proof (cases built)
  case (Resolves cs)
  with assms have r: "r = the (snd (health_handler p now (Resolves cs)))" by simp
  show ?thesis
    unfolding r Resolves by (simp add: health_handler_def Let_def)
next
  case (Rejects e)
  with assms have r: "r = the (snd (health_handler p now (Rejects e)))" by simp
  show ?thesis
    unfolding r Rejects by (simp add: health_handler_def)
next
  case Pending
  with assms show ?thesis by (simp add: health_handler_def)
qed

lemma health_responds:
  "built \<noteq> Pending \<Longrightarrow> snd (health_handler p now built) \<noteq> None"
  by (cases built) (simp_all add: health_handler_def Let_def)

text \<open>The handler as the template has it, with its three \<open>ready\<close> placeholders.\<close>

lemma health_template:
  "snd (health_handler p now (Resolves template_checks)) = Some r \<Longrightarrow>
     status_code r = 200 \<and> get_prop (body r) ''status'' = Str ''healthy''"
  by (auto simp add: health_handler_def overall_status_def hasErrors_def hasWarnings_def
      Object_values_def template_checks_def Let_def)

lemma health_example_error:
  "snd (health_handler p now (Resolves [(''database'', ''ready''), (''external_api'', ''error'')])) =
     Some \<lparr>status_code = 503,
           body = Obj [(''status'', Str ''error''),
                       (''service'', Str ''Your Service Name''),
                       (''version'', Str (env_or (env p) ''npm_package_version'' ''1.0.0'')),
                       (''timestamp'', Str (toISOString now)),
                       (''environment'', Str (env_or (env p) ''NODE_ENV'' ''development'')),
                       (''uptime'', Num (uptime p)),
                       (''checks'', Obj [(''database'', Str ''ready''),
                                         (''external_api'', Str ''error'')]),
                       (''notes'', Null)]\<rparr>"
  by (simp add: health_handler_def overall_status_def hasErrors_def hasWarnings_def
      Object_values_def checks_obj_def Let_def)

lemma health_example_healthy:
  "snd (health_handler p now
          (Resolves [(''database'', ''ready''), (''dependencies'', ''not_configured'')])) =
     Some \<lparr>status_code = 200,
           body = Obj [(''status'', Str ''healthy''),
                       (''service'', Str ''Your Service Name''),
                       (''version'', Str (env_or (env p) ''npm_package_version'' ''1.0.0'')),
                       (''timestamp'', Str (toISOString now)),
                       (''environment'', Str (env_or (env p) ''NODE_ENV'' ''development'')),
                       (''uptime'', Num (uptime p)),
                       (''checks'', Obj [(''database'', Str ''ready''),
                                         (''dependencies'', Str ''not_configured'')]),
                       (''notes'', Null)]\<rparr>"
  by (simp add: health_handler_def overall_status_def hasErrors_def hasWarnings_def
      Object_values_def checks_obj_def Let_def)

text \<open>
  C2: whenever the comprehensive health route answers, the status code is 503 exactly
  when the \<^verbatim>\<open>status\<close> of the body is \<open>error\<close> and 200 otherwise; on the \<^verbatim>\<open>try\<close> path
  that status is the computed overall status, and the route answers whenever evaluating
  the checks settles. The checks \<^verbatim>\<open>{database: 'ready', external_api: 'error'}\<close> give
  \<open>error\<close> and 503; \<^verbatim>\<open>{database: 'ready', dependencies: 'not_configured'}\<close> give
  \<open>healthy\<close> and 200.
\<close>

theorem health_status_code:
  "(snd (health_handler p now built) = Some r \<longrightarrow>
      (status_code r = 503 \<longleftrightarrow> get_prop (body r) ''status'' = Str ''error'') \<and>
      (status_code r = 200 \<longleftrightarrow> get_prop (body r) ''status'' \<noteq> Str ''error'') \<and>
      (\<forall>cs. built = Resolves cs \<longrightarrow> get_prop (body r) ''status'' = Str (overall_status cs))) \<and>
   (built \<noteq> Pending \<longrightarrow> snd (health_handler p now built) \<noteq> None) \<and>
   map_option (\<lambda>r. (get_prop (body r) ''status'', status_code r))
     (snd (health_handler p now
        (Resolves [(''database'', ''ready''), (''external_api'', ''error'')]))) =
     Some (Str ''error'', 503) \<and>
   map_option (\<lambda>r. (get_prop (body r) ''status'', status_code r))
     (snd (health_handler p now
        (Resolves [(''database'', ''ready''), (''dependencies'', ''not_configured'')]))) =
     Some (Str ''healthy'', 200)"
proof -
  have "map_option (\<lambda>r. (get_prop (body r) ''status'', status_code r))
     (snd (health_handler p now
        (Resolves [(''database'', ''ready''), (''external_api'', ''error'')]))) =
     Some (Str ''error'', 503)"
    by (simp add: health_example_error)
  moreover have "map_option (\<lambda>r. (get_prop (body r) ''status'', status_code r))
     (snd (health_handler p now
        (Resolves [(''database'', ''ready''), (''dependencies'', ''not_configured'')]))) =
     Some (Str ''healthy'', 200)"
    by (simp add: health_example_healthy)
  ultimately show ?thesis
    using health_status_of_response [of p now built r] health_responds [of built p now]
    by blast
qed

theorem health_status_code_witness:
  "snd (health_handler \<lparr>env = Map.empty, uptime = 12\<rparr> 1764000000123
         (Resolves [(''database'', ''degraded''), (''external_api'', ''failed'')])) =
     Some \<lparr>status_code = 503,
           body = Obj [(''status'', Str ''error''),
                       (''service'', Str ''Your Service Name''),
                       (''version'', Str ''1.0.0''),
                       (''timestamp'', Str ''2025-11-24T16:00:00.123Z''),
                       (''environment'', Str ''development''),
                       (''uptime'', Num 12),
                       (''checks'', Obj [(''database'', Str ''degraded''),
                                         (''external_api'', Str ''failed'')]),
                       (''notes'', Null)]\<rparr> \<and>
   overall_status [(''database'', ''degraded''), (''external_api'', ''failed'')] = ''error''"
proof -
  let ?cs = "[(''database'', ''degraded''), (''external_api'', ''failed'')]"
  let ?p = "\<lparr>env = Map.empty, uptime = 12\<rparr>"
  let ?r = "\<lparr>status_code = 503,
           body = Obj [(''status'', Str ''error''),
                       (''service'', Str ''Your Service Name''),
                       (''version'', Str ''1.0.0''),
                       (''timestamp'', Str ''2025-11-24T16:00:00.123Z''),
                       (''environment'', Str ''development''),
                       (''uptime'', Num 12),
                       (''checks'', Obj [(''database'', Str ''degraded''),
                                         (''external_api'', Str ''failed'')]),
                       (''notes'', Null)]\<rparr>"
  have run: "snd (health_handler ?p 1764000000123 (Resolves ?cs)) = Some ?r"
    by (simp add: health_handler_def overall_status_def hasErrors_def hasWarnings_def
        Object_values_def env_or_def checks_obj_def toISOString_sample Let_def)
  from health_status_code [of ?p 1764000000123 "Resolves ?cs" ?r] run
  have "Str (overall_status ?cs) = Str ''error''"
    by simp
  with run show ?thesis by simp
qed

subsection \<open>The global error handler\<close>

text \<open>
  C3, as stated: the body of the response holds only a generic message and a timestamp,
  and the bodies for two distinct errors are identical apart from the timestamp. With
  \<^verbatim>\<open>NODE_ENV\<close> set to \<open>production\<close> the handler also echoes the request's
  \<^verbatim>\<open>x-request-id\<close> header: two distinct errors, raised while serving two requests
  that differ in that header, get bodies that differ in \<^verbatim>\<open>requestId\<close>.
\<close>

theorem error_handler_request_id_counterexample:
  "map_option (\<lambda>r. without_timestamp (body r))
     (snd (error_handler \<lparr>env = [''NODE_ENV'' \<mapsto> ''production''], uptime = 1\<rparr>
        \<lparr>message = ''connect ECONNREFUSED'', stack = ''Error: connect ECONNREFUSED at db.js:7''\<rparr>
        \<lparr>method = ''GET'', originalUrl = ''/api/resource'',
         headers = [(''x-request-id'', ''req-1'')], ip = None\<rparr> 0 0)) =
     Some (Obj [(''error'', Str ''Internal Server Error''),
                (''message'', Str ''An unexpected error occurred''),
                (''requestId'', Str ''req-1'')]) \<and>
   map_option (\<lambda>r. without_timestamp (body r))
     (snd (error_handler \<lparr>env = [''NODE_ENV'' \<mapsto> ''production''], uptime = 1\<rparr>
        \<lparr>message = ''x is not a function'', stack = ''TypeError: x is not a function at h.js:3''\<rparr>
        \<lparr>method = ''GET'', originalUrl = ''/api/resource'',
         headers = [(''x-request-id'', ''req-2'')], ip = None\<rparr> 0 0)) =
     Some (Obj [(''error'', Str ''Internal Server Error''),
                (''message'', Str ''An unexpected error occurred''),
                (''requestId'', Str ''req-2'')])"
  by (simp add: error_handler_def str_or_undefined_def)

text \<open>
  C3, amended: for every error reaching the handler, the log entry holds the method, the
  URL, the error's message, its stack trace and a timestamp. The response has status 500
  and its body holds only a generic error category, a generic message, a timestamp and,
  when \<^verbatim>\<open>NODE_ENV\<close> is \<open>production\<close>, the request's own \<^verbatim>\<open>x-request-id\<close> header. The
  response does not depend on the error: for any two errors on the same request the
  responses at the same time are equal, and the bodies at different times are identical
  apart from the timestamp. So neither a stack trace nor an error message is ever taken
  into the response.
\<close>

theorem error_handler_no_leak:
  "fst (error_handler p err req logged now) =
     [Console_error ''Unhandled server error:'' (error_log_entry err req logged)] \<and>
   get_prop (error_log_entry err req logged) ''method'' = Str (method req) \<and>
   get_prop (error_log_entry err req logged) ''url'' = Str (originalUrl req) \<and>
   get_prop (error_log_entry err req logged) ''error'' = Str (message err) \<and>
   get_prop (error_log_entry err req logged) ''stack'' = Str (stack err) \<and>
   get_prop (error_log_entry err req logged) ''timestamp'' = Str (toISOString logged) \<and>
   snd (error_handler p err req logged now) = snd (error_handler p err' req logged' now) \<and>
   map_option (\<lambda>r. without_timestamp (body r)) (snd (error_handler p err req logged now)) =
     map_option (\<lambda>r. without_timestamp (body r)) (snd (error_handler p err' req logged' now')) \<and>
   map_option status_code (snd (error_handler p err req logged now)) = Some 500 \<and>
   map_option (\<lambda>r. get_prop (body r) ''error'') (snd (error_handler p err req logged now)) =
     Some (Str ''Internal Server Error'') \<and>
   map_option (\<lambda>r. get_prop (body r) ''message'') (snd (error_handler p err req logged now)) =
     Some (Str ''An unexpected error occurred'') \<and>
   map_option (\<lambda>r. get_prop (body r) ''timestamp'') (snd (error_handler p err req logged now)) =
     Some (Str (toISOString now)) \<and>
   map_option (\<lambda>r. get_prop (body r) ''requestId'') (snd (error_handler p err req logged now)) =
     Some (if env p ''NODE_ENV'' = Some ''production''
           then str_or_undefined (map_of (headers req) ''x-request-id'') else Undefined) \<and>
   map_option (\<lambda>r. set (Object_keys (body r)) \<subseteq> {''error'', ''message'', ''timestamp'', ''requestId''})
     (snd (error_handler p err req logged now)) = Some True"
  by (simp add: error_handler_def error_log_entry_def)

subsection \<open>The readiness route\<close>

text \<open>
  C4: every response of the readiness route has status code 200, and its \<^verbatim>\<open>status\<close>
  field is \<open>ready\<close> or \<open>not ready\<close>. When awaiting a check function throws, the
  \<^verbatim>\<open>catch\<close> branch answers, again with 200 and \<open>not ready\<close>. The route answers
  whenever the check functions it awaits settle.
\<close>

theorem readiness_always_200:
  "(snd (readiness_handler now dbCheck depCheck) = Some r \<longrightarrow>
      status_code r = 200 \<and>
      (get_prop (body r) ''status'' = Str ''ready'' \<or>
       get_prop (body r) ''status'' = Str ''not ready'')) \<and>
   (snd dbCheck = Rejects e \<longrightarrow>
      snd (readiness_handler now dbCheck depCheck) = Some (readiness_catch now e)) \<and>
   (snd dbCheck = Resolves d \<and> snd depCheck = Rejects e \<longrightarrow>
      snd (readiness_handler now dbCheck depCheck) = Some (readiness_catch now e)) \<and>
   status_code (readiness_catch now e) = 200 \<and>
   get_prop (body (readiness_catch now e)) ''status'' = Str ''not ready'' \<and>
   (snd dbCheck \<noteq> Pending \<and> (snd depCheck = Pending \<longrightarrow> (\<exists>e'. snd dbCheck = Rejects e')) \<longrightarrow>
      snd (readiness_handler now dbCheck depCheck) \<noteq> None)"
proof -
  have sent: "status_code r = 200 \<and>
      (get_prop (body r) ''status'' = Str ''ready'' \<or>
       get_prop (body r) ''status'' = Str ''not ready'')"
    if "snd (readiness_handler now dbCheck depCheck) = Some r"
    using readiness_handler_sent [OF that]
    by (auto simp: readiness_catch_fields readiness_reply_fields split: if_splits)
  have db: "snd (readiness_handler now dbCheck depCheck) = Some (readiness_catch now e)"
    if "snd dbCheck = Rejects e"
    using that by (simp add: readiness_handler_def)
  have dep: "snd (readiness_handler now dbCheck depCheck) = Some (readiness_catch now e)"
    if "snd dbCheck = Resolves d" "snd depCheck = Rejects e"
    using that by (simp add: readiness_handler_def)
  have catch: "status_code (readiness_catch now e) = 200"
    "get_prop (body (readiness_catch now e)) ''status'' = Str ''not ready''"
    by (simp_all add: readiness_catch_fields)
  have total: "snd (readiness_handler now dbCheck depCheck) \<noteq> None"
    if "snd dbCheck \<noteq> Pending" "snd depCheck = Pending \<longrightarrow> (\<exists>e'. snd dbCheck = Rejects e')"
    using that by (auto simp: readiness_handler_def split: outcome.splits)
  from sent db dep catch total show ?thesis by blast
qed

theorem readiness_always_200_witness:
  "snd (readiness_handler 0 ([], Resolves ''ready'')
          ([], Rejects \<lparr>message = ''timeout of 2000ms exceeded'', stack = ''Error: timeout''\<rparr>)) =
     Some \<lparr>status_code = 200,
           body = Obj [(''status'', Str ''not ready''),
                       (''service'', Str ''Your Service Name''),
                       (''timestamp'', Str ''1970-01-01T00:00:00.000Z''),
                       (''error'', Str ''timeout of 2000ms exceeded'')]\<rparr>"
proof -
  let ?e = "\<lparr>message = ''timeout of 2000ms exceeded'', stack = ''Error: timeout''\<rparr>"
  have "snd (readiness_handler 0 ([], Resolves ''ready'') ([], Rejects ?e)) =
      Some (readiness_catch 0 ?e)"
    using readiness_always_200 [where now = 0 and dbCheck = "([], Resolves ''ready'')"
        and depCheck = "([], Rejects ?e)" and e = ?e and d = "''ready''"]
    by simp
  then show ?thesis
    by (simp add: readiness_catch_def toISOString_epoch)
qed

subsection \<open>The liveness route\<close>

text \<open>
  C5: whatever the check computations in scope are and however they end, the liveness
  route answers at once with status code 200 and a body whose \<^verbatim>\<open>status\<close> is \<open>alive\<close>
  and whose \<^verbatim>\<open>uptime\<close> is the process uptime; it calls no check function, and it does
  not read the environment.
\<close>

theorem liveness_always_alive:
  "health_routes p now built dbCheck depCheck GET_health_liveness =
     ([], Some \<lparr>status_code = 200,
               body = Obj [(''status'', Str ''alive''),
                           (''service'', Str ''Your Service Name''),
                           (''uptime'', Num (uptime p)),
                           (''timestamp'', Str (toISOString now))]\<rparr>) \<and>
   health_routes p now built dbCheck depCheck GET_health_liveness = liveness_handler p now \<and>
   liveness_handler (p\<lparr>env := e\<rparr>) now = liveness_handler p now \<and>
   list_all (\<lambda>ev. case ev of Invoked c \<Rightarrow> False | Console_error l v \<Rightarrow> True)
     (fst (health_routes p now built dbCheck depCheck GET_health_liveness))"
  by (simp add: health_routes_def liveness_handler_def)

subsection \<open>The 404 handler\<close>

text \<open>
  C6: for every request that reaches the 404 handler, the response has status code 404;
  its body names the request in its message, lists the endpoint categories \<open>ui\<close>,
  \<open>health\<close>, \<open>api\<close> and \<open>webhooks\<close>, and holds a timestamp that \<open>toISOString\<close> printed,
  which has the ISO-8601 shape. For \<^verbatim>\<open>GET /nope\<close> the message is
  \<^verbatim>\<open>The endpoint GET /nope does not exist\<close>.
\<close>

theorem not_found_discovery:
  "fst (not_found_handler req now) = [] \<and>
   map_option status_code (snd (not_found_handler req now)) = Some 404 \<and>
   map_option (\<lambda>r. get_prop (body r) ''error'') (snd (not_found_handler req now)) =
     Some (Str ''Endpoint not found'') \<and>
   map_option (\<lambda>r. get_prop (body r) ''message'') (snd (not_found_handler req now)) =
     Some (Str (''The endpoint '' @ method req @ '' '' @ originalUrl req @ '' does not exist'')) \<and>
   map_option (\<lambda>r. Object_keys (get_prop (body r) ''availableEndpoints''))
     (snd (not_found_handler req now)) = Some [''ui'', ''health'', ''api'', ''webhooks''] \<and>
   map_option (\<lambda>r. get_prop (body r) ''timestamp'') (snd (not_found_handler req now)) =
     Some (Str (toISOString now)) \<and>
   is_iso8601 (toISOString now) \<and>
   map_option (\<lambda>r. get_prop (body r) ''message'')
     (snd (not_found_handler \<lparr>method = ''GET'', originalUrl = ''/nope'', headers = hs, ip = a\<rparr> now)) =
     Some (Str ''The endpoint GET /nope does not exist'')"
  by (simp add: not_found_handler_def res_json_availableEndpoints toISOString_is_iso8601)
    (simp add: availableEndpoints_def)

lemma not_found_example:
  "snd (not_found_handler \<lparr>method = ''GET'', originalUrl = ''/nope'', headers = [], ip = None\<rparr>
     1764000000123) =
   Some \<lparr>status_code = 404,
         body = Obj
           [(''error'', Str ''Endpoint not found''),
            (''message'', Str ''The endpoint GET /nope does not exist''),
            (''availableEndpoints'', availableEndpoints),
            (''timestamp'', Str ''2025-11-24T16:00:00.123Z'')]\<rparr>"
  by (simp add: not_found_handler_def res_json_availableEndpoints toISOString_sample)
    (simp add: availableEndpoints_def)

subsection \<open>Checks that fail or never complete\<close>

text \<open>
  C7, as stated: every check has an execution timeout, and a check that does not
  complete in time is recorded as \<open>error\<close> while the report is still returned. The
  check functions set no timeout: when the database probe never completes,
  \<^verbatim>\<open>await checkDatabase()\<close> never resumes and the readiness route sends nothing.
\<close>

theorem readiness_no_timeout_counterexample:
  "readiness \<lparr>env = Map.empty, uptime = 1\<rparr> 0 Pending (Resolves ()) =
     ([Invoked ''checkDatabase''], None)"
  by (simp add: readiness_def readiness_handler_def checkDatabase_def)

text \<open>
  C7, amended: the checks have no execution timeout. A check whose probe throws is
  recorded as \<open>error\<close> for that check only, and the readiness report still completes and
  is returned, whenever both probes complete (by returning or by throwing); when a probe
  never completes, no report is returned.
\<close>

theorem readiness_check_failure_local:
  "(dbProbe \<noteq> Pending \<and> depProbe \<noteq> Pending \<longrightarrow>
      snd (readiness p now dbProbe depProbe) =
        Some (readiness_reply now
          [(''database'', if (\<exists>e. dbProbe = Rejects e) then ''error'' else ''ready''),
           (''dependencies'',
              if (\<exists>e. depProbe = Rejects e) then ''error''
              else if env p ''API_KEY'' = None \<or> env p ''API_KEY'' = Some []
              then ''not_configured'' else ''ready'')])) \<and>
   (dbProbe = Pending \<or> depProbe = Pending \<longrightarrow> snd (readiness p now dbProbe depProbe) = None)"
  by (cases dbProbe; cases depProbe)
    (simp_all add: readiness_def readiness_handler_def checkDatabase_def checkDependencies_def)

theorem readiness_check_failure_local_witness:
  "snd (readiness \<lparr>env = [''API_KEY'' \<mapsto> ''k''], uptime = 1\<rparr> 0
          (Rejects \<lparr>message = ''connection refused'', stack = ''Error: connection refused''\<rparr>)
          (Resolves ())) =
     Some \<lparr>status_code = 200,
           body = Obj [(''status'', Str ''not ready''),
                       (''service'', Str ''Your Service Name''),
                       (''timestamp'', Str ''1970-01-01T00:00:00.000Z''),
                       (''checks'', Obj [(''database'', Str ''error''),
                                         (''dependencies'', Str ''ready'')])]\<rparr>"
  using readiness_check_failure_local [where
      dbProbe = "Rejects \<lparr>message = ''connection refused'', stack = ''Error: connection refused''\<rparr>"
      and depProbe = "Resolves ()" and p = "\<lparr>env = [''API_KEY'' \<mapsto> ''k''], uptime = 1\<rparr>"
      and now = 0]
  by (simp add: readiness_reply_def isReady_def Object_values_def checks_obj_def toISOString_epoch)

subsection \<open>Where the environment is read\<close>









subsection \<open>The status of the readiness body\<close>

text \<open>
  C9: for every \<^verbatim>\<open>checks\<close> object the readiness route builds from what its checks
  return, the \<^verbatim>\<open>status\<close> field of the body is \<open>ready\<close> exactly when every check value
  is \<open>ready\<close> or \<open>not_configured\<close>, and \<open>not ready\<close> otherwise.
\<close>

theorem readiness_status_iff:
  "get_prop (body (readiness_reply now cs)) ''status'' =
     Str (if (\<forall>v \<in> set (Object_values cs). v = ''ready'' \<or> v = ''not_configured'')
          then ''ready'' else ''not ready'') \<and>
   (snd dbCheck = Resolves database \<and> snd depCheck = Resolves dependencies \<longrightarrow>
      snd (readiness_handler now dbCheck depCheck) =
        Some (readiness_reply now [(''database'', database), (''dependencies'', dependencies)]) \<and>
      map_option (\<lambda>r. get_prop (body r) ''status'') (snd (readiness_handler now dbCheck depCheck)) =
        Some (Str (if (database = ''ready'' \<or> database = ''not_configured'') \<and>
                      (dependencies = ''ready'' \<or> dependencies = ''not_configured'')
                   then ''ready'' else ''not ready'')))"
  by (auto simp add: readiness_reply_fields isReady_def list_all_iff readiness_handler_def
      Object_values_def)

theorem readiness_status_iff_witness:
  "map_option (\<lambda>r. get_prop (body r) ''status'')
     (snd (readiness_handler 0 ([], Resolves ''ready'') ([], Resolves ''not_configured''))) =
     Some (Str ''ready'') \<and>
   map_option (\<lambda>r. get_prop (body r) ''status'')
     (snd (readiness_handler 0 ([], Resolves ''error'') ([], Resolves ''ready''))) =
     Some (Str ''not ready'')"
proof -
  let ?ok = "[(''database'', ''ready''), (''dependencies'', ''not_configured'')]"
  let ?bad = "[(''database'', ''error''), (''dependencies'', ''ready'')]"
  have "snd (readiness_handler 0 ([], Resolves ''ready'') ([], Resolves ''not_configured'')) =
      Some (readiness_reply 0 ?ok)"
    using readiness_status_iff [where dbCheck = "([], Resolves ''ready'')"
        and depCheck = "([], Resolves ''not_configured'')" and database = "''ready''"
        and dependencies = "''not_configured''" and now = 0]
    by simp
  moreover have "get_prop (body (readiness_reply 0 ?ok)) ''status'' = Str ''ready''"
    using readiness_status_iff [where cs = ?ok and now = 0]
    by (simp add: Object_values_def)
  moreover have "snd (readiness_handler 0 ([], Resolves ''error'') ([], Resolves ''ready'')) =
      Some (readiness_reply 0 ?bad)"
    using readiness_status_iff [where dbCheck = "([], Resolves ''error'')"
        and depCheck = "([], Resolves ''ready'')" and database = "''error''"
        and dependencies = "''ready''" and now = 0]
    by simp
  moreover have "get_prop (body (readiness_reply 0 ?bad)) ''status'' = Str ''not ready''"
    using readiness_status_iff [where cs = ?bad and now = 0]
    by (simp add: Object_values_def)
  ultimately show ?thesis by simp
qed

subsection \<open>The \<^verbatim>\<open>catch\<close> branches of the health and readiness handlers\<close>

text \<open>
  C10: when the \<^verbatim>\<open>try\<close> block of the comprehensive health handler throws, the response
  (503, status \<open>error\<close>) carries the thrown error's message in its \<^verbatim>\<open>error\<close> field and
  has no \<^verbatim>\<open>checks\<close> field; when awaiting a check throws in the readiness handler, the
  response (200, status \<open>not ready\<close>) does the same. On these paths the raw message of
  the error reaches the client.
\<close>

theorem handler_catch_exposes_message:
  "map_option status_code (snd (health_handler p now (Rejects e))) = Some 503 \<and>
   map_option (\<lambda>r. get_prop (body r) ''status'') (snd (health_handler p now (Rejects e))) =
     Some (Str ''error'') \<and>
   map_option (\<lambda>r. get_prop (body r) ''error'') (snd (health_handler p now (Rejects e))) =
     Some (Str (message e)) \<and>
   map_option (\<lambda>r. get_prop (body r) ''checks'') (snd (health_handler p now (Rejects e))) =
     Some Undefined \<and>
   (snd dbCheck = Rejects e \<or> (\<exists>d. snd dbCheck = Resolves d) \<and> snd depCheck = Rejects e \<longrightarrow>
      map_option status_code (snd (readiness_handler now dbCheck depCheck)) = Some 200 \<and>
      map_option (\<lambda>r. get_prop (body r) ''status'') (snd (readiness_handler now dbCheck depCheck)) =
        Some (Str ''not ready'') \<and>
      map_option (\<lambda>r. get_prop (body r) ''error'') (snd (readiness_handler now dbCheck depCheck)) =
        Some (Str (message e)) \<and>
      map_option (\<lambda>r. get_prop (body r) ''checks'') (snd (readiness_handler now dbCheck depCheck)) =
        Some Undefined)"
  by (auto simp add: health_handler_def readiness_handler_def readiness_catch_fields)

theorem handler_catch_exposes_message_witness:
  "map_option (\<lambda>r. get_prop (body r) ''error'')
     (snd (readiness_handler 0
        ([], Rejects \<lparr>message = ''password authentication failed for user admin'',
                       stack = ''Error: password authentication failed''\<rparr>)
        ([], Resolves ''ready''))) =
     Some (Str ''password authentication failed for user admin'')"
  using handler_catch_exposes_message [where
      e = "\<lparr>message = ''password authentication failed for user admin'',
            stack = ''Error: password authentication failed''\<rparr>"
      and dbCheck = "([], Rejects \<lparr>message = ''password authentication failed for user admin'',
                       stack = ''Error: password authentication failed''\<rparr>)"
      and depCheck = "([], Resolves ''ready'')" and now = 0]
  by simp

end
